theory Spec2Isabelle
  imports Main "HOL-Library.Sublist" "HOL-Library.Multiset"
begin

section \<open>JavaScript strings and truthiness\<close>

text \<open>
  A string is a list of code units, each in the range U+0000 to U+00FF. On this range
  \<open>toLowerCase\<close> maps the letters \<open>A\<close> to \<open>Z\<close> and the upper-case letters U+00C0 to
  U+00DE (all of that block but the multiplication sign U+00D7) to the unit 32 above, and
  leaves every other unit alone; \<open>trim\<close> removes, at both ends, the white space and the
  line terminators of the language: tab, line feed, vertical tab, form feed, carriage
  return, space and the no-break space U+00A0.
  A property that may be \<open>undefined\<close> is a \<open>string option\<close>.
\<close>

definition upperCaseUnits :: string where
  "upperCaseUnits =
     ''ABCDEFGHIJKLMNOPQRSTUVWXYZ'' @
      [CHR 0xC0, CHR 0xC1, CHR 0xC2, CHR 0xC3, CHR 0xC4, CHR 0xC5, CHR 0xC6,
       CHR 0xC7, CHR 0xC8, CHR 0xC9, CHR 0xCA, CHR 0xCB, CHR 0xCC, CHR 0xCD,
       CHR 0xCE, CHR 0xCF, CHR 0xD0, CHR 0xD1, CHR 0xD2, CHR 0xD3, CHR 0xD4,
       CHR 0xD5, CHR 0xD6, CHR 0xD8, CHR 0xD9, CHR 0xDA, CHR 0xDB, CHR 0xDC,
       CHR 0xDD, CHR 0xDE]"

definition lowerCaseUnits :: string where
  "lowerCaseUnits =
     ''abcdefghijklmnopqrstuvwxyz'' @
      [CHR 0xE0, CHR 0xE1, CHR 0xE2, CHR 0xE3, CHR 0xE4, CHR 0xE5, CHR 0xE6,
       CHR 0xE7, CHR 0xE8, CHR 0xE9, CHR 0xEA, CHR 0xEB, CHR 0xEC, CHR 0xED,
       CHR 0xEE, CHR 0xEF, CHR 0xF0, CHR 0xF1, CHR 0xF2, CHR 0xF3, CHR 0xF4,
       CHR 0xF5, CHR 0xF6, CHR 0xF8, CHR 0xF9, CHR 0xFA, CHR 0xFB, CHR 0xFC,
       CHR 0xFD, CHR 0xFE]"

definition toLowerChar :: "char \<Rightarrow> char" where
  "toLowerChar c =
     (case map_of (zip upperCaseUnits lowerCaseUnits) c of
        None \<Rightarrow> c
      | Some d \<Rightarrow> d)"

definition toLowerCase :: "string \<Rightarrow> string" where
  "toLowerCase s = map toLowerChar s"

definition isWhiteSpace :: "char \<Rightarrow> bool" where
  "isWhiteSpace c =
     (c \<in> set [CHR 0x09, CHR 0x0A, CHR 0x0B, CHR 0x0C, CHR 0x0D, CHR 0x20, CHR 0xA0])"

definition trim :: "string \<Rightarrow> string" where
  "trim s = rev (dropWhile isWhiteSpace (rev (dropWhile isWhiteSpace s)))"


text \<open>\<open>s.slice(0, n)\<close> for \<open>0 \<le> n\<close>: the first \<open>n\<close> units, all of \<open>s\<close> when it is shorter.\<close>

definition slice0 :: "nat \<Rightarrow> string \<Rightarrow> string" where
  "slice0 n s = take n s"

text \<open>A value is falsy when it is \<open>undefined\<close> or the empty string.\<close>

definition truthy :: "string option \<Rightarrow> bool" where
  "truthy v = (case v of None \<Rightarrow> False | Some s \<Rightarrow> s \<noteq> [])"

text \<open>\<open>v || d\<close> on strings.\<close>

definition or_else :: "string option \<Rightarrow> string \<Rightarrow> string" where
  "or_else v d = (case v of None \<Rightarrow> d | Some s \<Rightarrow> (if s = [] then d else s))"

section \<open>Client-side filtering: \<open>ArchiveManager.filterItems\<close>\<close>






subsection \<open>What the specification says of the filter\<close>









section \<open>Server: documents, store and environment\<close>

text \<open>
  An ObjectId is kept in its 24-digit lower-case hexadecimal form. Dates are milliseconds
  since the epoch.
\<close>

type_synonym objectid = string

text \<open>
  Modelled from the spec: the schema of the User model (\<^verbatim>\<open>models/User.js\<close>) is
  not among the sources; the data model gives a user the fields id, name (optional),
  email (required) and passwordHash (required), with no index that would reject a second
  record with the same email.
\<close>

record user =
  user_id :: objectid
  user_name :: "string option"
  user_email :: string
  user_passwordHash :: string

text \<open>\<^verbatim>\<open>bookSchema\<close> and \<^verbatim>\<open>articleSchema\<close>.\<close>

record book =
  book_id :: objectid
  book_title :: string
  book_description :: string
  book_image :: "string option"
  book_createdAt :: int

record article =
  article_id :: objectid
  article_title :: string
  article_tag :: string
  article_author :: string
  article_readTime :: string
  article_excerpt :: string
  article_content :: string
  article_coverImage :: string
  article_isCommunity :: bool
  article_createdAt :: int

text \<open>
  The three collections, each in insertion order. The store itself does not fail in this
  model: an operation throws only on its input (a required path that is missing, an id
  that is no ObjectId), and the catch branches of the handlers are reached through these.
\<close>

record db =
  users :: "user list"
  books :: "book list"
  articles :: "article list"

text \<open>
  What a request takes from outside the program: the ObjectId generated for a new
  document, the clock (\<^verbatim>\<open>Date.now\<close>) and the random salt of
  \<^verbatim>\<open>bcrypt.hash\<close>.
\<close>

record env =
  new_id :: objectid
  now :: int
  salt :: string

text \<open>
  The two functions of the bcryptjs package that the server calls, as parameters:
  \<open>bcrypt_hash password rounds salt\<close> and \<open>bcrypt_compare password hash\<close>.
\<close>

record bcrypt =
  bcrypt_hash :: "string \<Rightarrow> nat \<Rightarrow> string \<Rightarrow> string"
  bcrypt_compare :: "string \<Rightarrow> string \<Rightarrow> bool"

text \<open>The errors that the model operations throw.\<close>

datatype error =
    ValidationError "string list"  \<comment> \<open>the required paths that are missing\<close>
  | CastError string               \<comment> \<open>the value that is no ObjectId\<close>
  | IllegalArguments               \<comment> \<open>bcrypt called on \<open>undefined\<close>\<close>

subsection \<open>Model operations\<close>

text \<open>
  \<^verbatim>\<open>required: true\<close> on a String path: the value must be a string of length
  greater than zero. The result lists the paths that fail.
\<close>

definition missing_paths :: "(string \<times> string option) list \<Rightarrow> string list" where
  "missing_paths ps = map fst (filter (\<lambda>(path, v). \<not> truthy v) ps)"

text \<open>\<^verbatim>\<open>Book.create({ title, description, image })\<close>.\<close>

definition Book_create ::
  "env \<Rightarrow> string option \<Rightarrow> string option \<Rightarrow> string option \<Rightarrow> book list
     \<Rightarrow> error + book \<times> book list" where
  "Book_create e title description img bs =
     (let missing = missing_paths [(''title'', title), (''description'', description)] in
      if missing \<noteq> [] then Inl (ValidationError missing)
      else
        (let doc = \<lparr>book_id = new_id e, book_title = or_else title [],
                     book_description = or_else description [], book_image = img,
                     book_createdAt = now e\<rparr>
         in Inr (doc, bs @ [doc])))"

text \<open>
  \<^verbatim>\<open>Article.create({ title, tag, author, readTime, excerpt, content, coverImage })\<close>;
  \<open>coverImage\<close> has the default \<open>''\<close> and \<open>isCommunity\<close> the default \<open>true\<close>.
\<close>

definition Article_create ::
  "env \<Rightarrow> string option \<Rightarrow> string \<Rightarrow> string \<Rightarrow> string \<Rightarrow> string \<Rightarrow> string option
     \<Rightarrow> string option \<Rightarrow> article list \<Rightarrow> error + article \<times> article list" where
  "Article_create e title tag author readTime excerpt content coverImage arts =
     (let missing = missing_paths [(''title'', title), (''content'', content)] in
      if missing \<noteq> [] then Inl (ValidationError missing)
      else
        (let doc = \<lparr>article_id = new_id e, article_title = or_else title [],
                     article_tag = tag, article_author = author,
                     article_readTime = readTime, article_excerpt = excerpt,
                     article_content = or_else content [],
                     article_coverImage = (case coverImage of None \<Rightarrow> [] | Some c \<Rightarrow> c),
                     article_isCommunity = True, article_createdAt = now e\<rparr>
         in Inr (doc, arts @ [doc])))"

text \<open>
  \<^verbatim>\<open>User.create({ name, email, passwordHash })\<close>, with the required paths of the
  user schema above.
\<close>

definition User_create ::
  "env \<Rightarrow> string option \<Rightarrow> string option \<Rightarrow> string option \<Rightarrow> user list
     \<Rightarrow> error + user \<times> user list" where
  "User_create e name email passwordHash us =
     (let missing = missing_paths [(''email'', email), (''passwordHash'', passwordHash)] in
      if missing \<noteq> [] then Inl (ValidationError missing)
      else
        (let doc = \<lparr>user_id = new_id e, user_name = name, user_email = or_else email [],
                     user_passwordHash = or_else passwordHash []\<rparr>
         in Inr (doc, us @ [doc])))"

text \<open>
  \<^verbatim>\<open>User.findOne({ email })\<close>: the first user with that email. When the value is
  \<open>undefined\<close>, the condition matches only a document that has no email; every stored
  user has one, so nothing is found.
\<close>

definition User_findOne :: "string option \<Rightarrow> user list \<Rightarrow> user option" where
  "User_findOne email us =
     (case email of
        None \<Rightarrow> None
      | Some em \<Rightarrow> find (\<lambda>u. user_email u = em) us)"

text \<open>
  \<^verbatim>\<open>find().sort({ createdAt: -1 })\<close>: all documents, the newest first.
\<close>

definition Book_find_sorted :: "book list \<Rightarrow> book list" where
  "Book_find_sorted bs = sort_key (\<lambda>b. - book_createdAt b) bs"

definition Article_find_sorted :: "article list \<Rightarrow> article list" where
  "Article_find_sorted arts = sort_key (\<lambda>a. - article_createdAt a) arts"

text \<open>
  The cast of the route parameter to the type of \<open>_id\<close>, which \<open>findByIdAndUpdate\<close>
  and \<open>findByIdAndDelete\<close> apply to their first argument: a string of 24 hexadecimal
  digits is an ObjectId, in either letter case; on any other string the cast throws a
  CastError. (Some releases of the driver also read a string of exactly 12 characters as
  the 12 bytes of an ObjectId; the model takes the hexadecimal form only.)
\<close>

definition isHexDigit :: "char \<Rightarrow> bool" where
  "isHexDigit c = (c \<in> set ''0123456789abcdefABCDEF'')"

definition castObjectId :: "string \<Rightarrow> error + objectid" where
  "castObjectId s =
     (if length s = 24 \<and> list_all isHexDigit s then Inr (toLowerCase s)
      else Inl (CastError s))"

fun update_first :: "('a \<Rightarrow> bool) \<Rightarrow> ('a \<Rightarrow> 'a) \<Rightarrow> 'a list \<Rightarrow> 'a list" where
  "update_first P f [] = []"
| "update_first P f (x # xs) = (if P x then f x # xs else x # update_first P f xs)"

fun remove_first :: "('a \<Rightarrow> bool) \<Rightarrow> 'a list \<Rightarrow> 'a list" where
  "remove_first P [] = []"
| "remove_first P (x # xs) = (if P x then xs else x # remove_first P xs)"

text \<open>
  \<^verbatim>\<open>Book.findByIdAndUpdate(id, { title, description, image })\<close>: sets the paths that
  are given (a path whose value is \<open>undefined\<close> is left as it is), runs no validator, and
  returns the document as it was, or \<open>null\<close> when no document has the id.
\<close>

definition set_book_fields :: "string option \<Rightarrow> string option \<Rightarrow> string option \<Rightarrow> book \<Rightarrow> book" where
  "set_book_fields title description img b =
     b\<lparr>book_title := (case title of None \<Rightarrow> book_title b | Some t \<Rightarrow> t),
       book_description := (case description of None \<Rightarrow> book_description b | Some x \<Rightarrow> x),
       book_image := (case img of None \<Rightarrow> book_image b | Some i \<Rightarrow> Some i)\<rparr>"

definition Book_findByIdAndUpdate ::
  "string \<Rightarrow> string option \<Rightarrow> string option \<Rightarrow> string option \<Rightarrow> book list
     \<Rightarrow> error + book option \<times> book list" where
  "Book_findByIdAndUpdate idstr title description img bs =
     (case castObjectId idstr of
        Inl err \<Rightarrow> Inl err
      | Inr oid \<Rightarrow>
          Inr (find (\<lambda>b. book_id b = oid) bs,
               update_first (\<lambda>b. book_id b = oid) (set_book_fields title description img) bs))"

text \<open>\<^verbatim>\<open>Book.findByIdAndDelete(id)\<close>.\<close>

definition Book_findByIdAndDelete :: "string \<Rightarrow> book list \<Rightarrow> error + book option \<times> book list" where
  "Book_findByIdAndDelete idstr bs =
     (case castObjectId idstr of
        Inl err \<Rightarrow> Inl err
      | Inr oid \<Rightarrow>
          Inr (find (\<lambda>b. book_id b = oid) bs, remove_first (\<lambda>b. book_id b = oid) bs))"

text \<open>
  \<^verbatim>\<open>bcrypt.hash(password, 10)\<close> and \<^verbatim>\<open>bcrypt.compare(password, hash)\<close>
  throw when the password is not a string.
\<close>

definition hash_password :: "bcrypt \<Rightarrow> env \<Rightarrow> string option \<Rightarrow> error + string" where
  "hash_password B e password =
     (case password of
        None \<Rightarrow> Inl IllegalArguments
      | Some pw \<Rightarrow> Inr (bcrypt_hash B pw 10 (salt e)))"

definition compare_password :: "bcrypt \<Rightarrow> string option \<Rightarrow> string \<Rightarrow> error + bool" where
  "compare_password B password h =
     (case password of
        None \<Rightarrow> Inl IllegalArguments
      | Some pw \<Rightarrow> Inr (bcrypt_compare B pw h))"

section \<open>Server: requests, responses and route handlers\<close>

text \<open>\<open>req.session.user\<close>, when it is set.\<close>

record session_user =
  su_id :: objectid
  su_email :: string
  su_name :: "string option"

text \<open>
  A request: the fields of the posted form, the \<open>:id\<close> of the path (\<open>''\<close> on a route
  without one) and the session.
\<close>

record request =
  req_body :: "string \<Rightarrow> string option"
  req_params_id :: string
  req_session :: "session_user option"

text \<open>
  A response: \<open>res.redirect(path)\<close>, \<open>res.status(code).send(text)\<close>,
  \<open>res.render(view, { pageTitle, page, ... })\<close> and \<open>res.json(articles)\<close>. A rendered
  view receives the view name, the title, the page, the records handed to it, and the
  local \<open>currentUser\<close> that the middleware below sets on every request.
\<close>

datatype view_data = NoData | BooksData "book list" | ArticlesData "article list"

datatype response =
    Redirect string
  | Send nat string
  | Render string string string view_data "session_user option"
  | Json "article list"

text \<open>
  The middleware that runs before every route:
  \<open>res.locals.currentUser = req.session.user || null\<close>.
\<close>

definition currentUser :: "request \<Rightarrow> session_user option" where
  "currentUser req = req_session req"

text \<open>\<open>GET /articles\<close>, \<open>GET /books\<close>, \<open>GET /admin/books\<close>, \<open>GET /api/articles\<close>.\<close>

definition get_articles :: "request \<Rightarrow> db \<Rightarrow> response" where
  "get_articles req d =
     Render ''partials/layout'' ''Articles'' ''articles''
       (ArticlesData (Article_find_sorted (articles d))) (currentUser req)"

definition get_books :: "request \<Rightarrow> db \<Rightarrow> response" where
  "get_books req d =
     Render ''partials/layout'' ''Books'' ''books'' (BooksData (Book_find_sorted (books d)))
       (currentUser req)"

definition get_admin_books :: "request \<Rightarrow> db \<Rightarrow> response" where
  "get_admin_books req d =
     Render ''partials/layout'' ''Manage Books'' ''admin-books''
       (BooksData (Book_find_sorted (books d))) (currentUser req)"

definition get_api_articles :: "request \<Rightarrow> db \<Rightarrow> response" where
  "get_api_articles req d = Json (Article_find_sorted (articles d))"

text \<open>\<open>POST /write\<close>.\<close>

definition post_write :: "env \<Rightarrow> request \<Rightarrow> db \<Rightarrow> response \<times> db" where
  "post_write e req d =
     (let title = req_body req ''title''; tag = req_body req ''tag'';
          author = req_body req ''author''; readTime = req_body req ''readTime'';
          excerpt = req_body req ''excerpt''; content = req_body req ''content'';
          coverImage = req_body req ''coverImage''
      in
        if \<not> truthy title \<or> \<not> truthy content
        then (Send 400 ''Title and content are required.'', d)
        else
          (case Article_create e title
                  (or_else tag ''Article'')
                  (or_else author ''Anonymous'')
                  (or_else readTime ''3 min read'')
                  (or_else excerpt (slice0 120 (or_else content []) @ ''...''))
                  content coverImage (articles d) of
             Inl err \<Rightarrow> (Send 500 ''Failed to publish article.'', d)
           | Inr (doc, arts) \<Rightarrow> (Redirect ''/articles'', d\<lparr>articles := arts\<rparr>)))"

text \<open>\<open>POST /signup\<close>. The third component is the session after the request.\<close>

definition post_signup ::
  "bcrypt \<Rightarrow> env \<Rightarrow> request \<Rightarrow> db \<Rightarrow> response \<times> db \<times> session_user option" where
  "post_signup B e req d =
     (let name = req_body req ''name''; email = req_body req ''email'';
          password = req_body req ''password''
      in
        if \<not> truthy email \<or> \<not> truthy password
        then (Redirect ''/signin'', d, req_session req)
        else
          (case User_findOne email (users d) of
             Some existing \<Rightarrow> (Redirect ''/signin'', d, req_session req)
           | None \<Rightarrow>
               (case hash_password B e password of
                  Inl err \<Rightarrow> (Redirect ''/signin'', d, req_session req)
                | Inr passwordHash \<Rightarrow>
                    (case User_create e name email (Some passwordHash) (users d) of
                       Inl err \<Rightarrow> (Redirect ''/signin'', d, req_session req)
                     | Inr (u, us) \<Rightarrow>
                         (Redirect ''/home'', d\<lparr>users := us\<rparr>,
                          Some \<lparr>su_id = user_id u, su_email = user_email u,
                                su_name = user_name u\<rparr>)))))"

text \<open>\<open>POST /signin\<close>.\<close>

definition post_signin ::
  "bcrypt \<Rightarrow> request \<Rightarrow> db \<Rightarrow> response \<times> db \<times> session_user option" where
  "post_signin B req d =
     (let email = req_body req ''email''; password = req_body req ''password'' in
        case User_findOne email (users d) of
          None \<Rightarrow> (Redirect ''/signin'', d, req_session req)
        | Some u \<Rightarrow>
            (case compare_password B password (user_passwordHash u) of
               Inl err \<Rightarrow> (Redirect ''/signin'', d, req_session req)
             | Inr ok \<Rightarrow>
                 if \<not> ok then (Redirect ''/signin'', d, req_session req)
                 else (Redirect ''/home'', d,
                       Some \<lparr>su_id = user_id u, su_email = user_email u,
                             su_name = user_name u\<rparr>)))"

text \<open>\<open>POST /admin/books\<close>, \<open>POST /admin/books/:id/edit\<close>, \<open>POST /admin/books/:id/delete\<close>.\<close>

definition post_admin_books :: "env \<Rightarrow> request \<Rightarrow> db \<Rightarrow> response \<times> db" where
  "post_admin_books e req d =
     (let title = req_body req ''title''; description = req_body req ''description'';
          img = req_body req ''image''
      in
        case Book_create e title description img (books d) of
          Inl err \<Rightarrow> (Send 500 ''Error creating book'', d)
        | Inr (doc, bs) \<Rightarrow> (Redirect ''/admin/books'', d\<lparr>books := bs\<rparr>))"

definition post_admin_books_edit :: "request \<Rightarrow> db \<Rightarrow> response \<times> db" where
  "post_admin_books_edit req d =
     (let title = req_body req ''title''; description = req_body req ''description'';
          img = req_body req ''image''
      in
        case Book_findByIdAndUpdate (req_params_id req) title description img (books d) of
          Inl err \<Rightarrow> (Send 500 ''Error updating book'', d)
        | Inr (old, bs) \<Rightarrow> (Redirect ''/admin/books'', d\<lparr>books := bs\<rparr>))"

definition post_admin_books_delete :: "request \<Rightarrow> db \<Rightarrow> response \<times> db" where
  "post_admin_books_delete req d =
     (case Book_findByIdAndDelete (req_params_id req) (books d) of
        Inl err \<Rightarrow> (Send 500 ''Error deleting book'', d)
      | Inr (old, bs) \<Rightarrow> (Redirect ''/admin/books'', d\<lparr>books := bs\<rparr>))"

section \<open>Notions used to state the properties\<close>

text \<open>
  A list of creation times is newest first when, in every pair of neighbours, the earlier
  entry is at least the later one.
\<close>

definition newest_first :: "int list \<Rightarrow> bool" where
  "newest_first ts = list_all (\<lambda>(earlier, later). earlier \<ge> later) (zip ts (tl ts))"

text \<open>A response that reports a failure: a status of 400 or above.\<close>

definition is_error_response :: "response \<Rightarrow> bool" where
  "is_error_response r = (case r of Send code text \<Rightarrow> code \<ge> 400 | _ \<Rightarrow> False)"

subsection \<open>Concrete data\<close>

text \<open>
  A stand-in for the two bcrypt functions, used only where a theorem is instantiated at
  concrete values: the hash is a marker, the salt and the password.
\<close>

definition bcrypt_toy :: bcrypt where
  "bcrypt_toy =
     \<lparr>bcrypt_hash = (\<lambda>pw rounds slt. ''$2a$'' @ slt @ pw),
      bcrypt_compare = (\<lambda>pw h. drop (length h - length pw) h = pw)\<rparr>"

definition oid_a :: objectid where "oid_a = ''65a1b2c3d4e5f60718293a4b''"
definition oid_b :: objectid where "oid_b = ''65a1b2c3d4e5f60718293a4c''"
definition oid_new :: objectid where "oid_new = ''65a1b2c3d4e5f60718293a4d''"
definition oid_absent :: objectid where "oid_absent = ''ffffffffffffffffffffffff''"

definition env_example :: env where
  "env_example = \<lparr>new_id = oid_new, now = 300, salt = ''N9qo8uLOickgx2ZMRZoMye''\<rparr>"

definition user_ann :: user where
  "user_ann = \<lparr>user_id = oid_a, user_name = Some ''Ann'', user_email = ''ann@example.org'',
                user_passwordHash = ''$2a$abcdefghijklmnopqrstuvsecret''\<rparr>"

definition book_a :: book where
  "book_a = \<lparr>book_id = oid_a, book_title = ''The Way of Nagomi'',
              book_description = ''Finding balance.'', book_image = None,
              book_createdAt = 100\<rparr>"

definition book_b :: book where
  "book_b = \<lparr>book_id = oid_b, book_title = ''X'', book_description = ''Y'',
              book_image = Some ''x.jpg'', book_createdAt = 200\<rparr>"

definition article_a :: article where
  "article_a = \<lparr>article_id = oid_a, article_title = ''First'', article_tag = ''Article'',
                 article_author = ''Anonymous'', article_readTime = ''3 min read'',
                 article_excerpt = ''One...'', article_content = ''One'',
                 article_coverImage = [], article_isCommunity = True,
                 article_createdAt = 50\<rparr>"

definition article_b :: article where
  "article_b = \<lparr>article_id = oid_b, article_title = ''Second'', article_tag = ''Poem'',
                 article_author = ''Ann'', article_readTime = ''1 min read'',
                 article_excerpt = ''Two...'', article_content = ''Two'',
                 article_coverImage = [], article_isCommunity = True,
                 article_createdAt = 70\<rparr>"

definition db_example :: db where
  "db_example = \<lparr>users = [user_ann], books = [book_a, book_b],
                  articles = [article_a, article_b]\<rparr>"

definition session_ann :: session_user where
  "session_ann = \<lparr>su_id = oid_a, su_email = ''ann@example.org'', su_name = Some ''Ann''\<rparr>"

text \<open>A request with the given form fields and path parameter, and no session.\<close>

definition request_of :: "(string \<times> string) list \<Rightarrow> string \<Rightarrow> request" where
  "request_of form idstr = \<lparr>req_body = map_of form, req_params_id = idstr, req_session = None\<rparr>"

definition user_bob :: user where
  "user_bob = \<lparr>user_id = oid_new, user_name = Some ''Bob'', user_email = ''bob@example.org'',
                user_passwordHash = ''$2a$N9qo8uLOickgx2ZMRZoMyehunter2''\<rparr>"

definition session_bob :: session_user where
  "session_bob = \<lparr>su_id = oid_new, su_email = ''bob@example.org'', su_name = Some ''Bob''\<rparr>"

definition signup_bob :: request where
  "signup_bob =
     request_of [(''name'', ''Bob''), (''email'', ''bob@example.org''),
                 (''password'', ''hunter2'')] []"

definition signin_bob :: request where
  "signin_bob = request_of [(''email'', ''bob@example.org''), (''password'', ''hunter2'')] []"

definition signup_ann_again :: request where
  "signup_ann_again =
     request_of [(''name'', ''Other''), (''email'', ''ann@example.org''),
                 (''password'', ''pass'')] []"

definition edit_fields :: "(string \<times> string) list" where
  "edit_fields = [(''title'', ''New title''), (''description'', ''New text''), (''image'', [])]"

text \<open>
  A text of 130 characters, and a submission that carries it with the excerpt field left
  empty.
\<close>

definition content_long :: string where
  "content_long = replicate 130 (CHR ''x'')"

definition write_long :: request where
  "write_long =
     request_of [(''title'', ''Hello''), (''content'', content_long), (''excerpt'', [])] []"


section \<open>Auxiliary facts\<close>




lemma truthy_iff: "truthy v \<longleftrightarrow> v \<noteq> None \<and> v \<noteq> Some []"
  by (cases v) (simp_all add: truthy_def)

lemma or_else_truthy: "s \<noteq> [] \<Longrightarrow> or_else (Some s) dflt = s"
  by (simp add: or_else_def)











lemma trim_no_break_space: "trim (CHR 0xA0 # ''zen'' @ [CHR 0xA0]) = ''zen''"
  by (simp add: trim_def isWhiteSpace_def)

lemma toLowerCase_latin1: "toLowerCase [CHR 0xC9, CHR 0xD7, CHR 0xDF] = [CHR 0xE9, CHR 0xD7, CHR 0xDF]"
  by (simp add: toLowerCase_def toLowerChar_def upperCaseUnits_def lowerCaseUnits_def)

lemma update_first_absent: "\<forall>x\<in>set xs. \<not> P x \<Longrightarrow> update_first P f xs = xs"
  by (induction xs) auto

lemma remove_first_absent: "\<forall>x\<in>set xs. \<not> P x \<Longrightarrow> remove_first P xs = xs"
  by (induction xs) auto

lemma find_append_fresh:
  "\<forall>x\<in>set xs. \<not> P x \<Longrightarrow> P y \<Longrightarrow> find P (xs @ [y]) = Some y"
  by (induction xs) auto

lemma find_fresh: "\<forall>x\<in>set xs. \<not> P x \<Longrightarrow> find P xs = None"
  by (simp add: find_None_iff)

lemma Article_create_ok:
  assumes "t \<noteq> []" "c \<noteq> []"
  shows "Article_create e (Some t) tag author readTime excerpt (Some c) coverImage arts =
           Inr (\<lparr>article_id = new_id e, article_title = t, article_tag = tag,
                  article_author = author, article_readTime = readTime,
                  article_excerpt = excerpt, article_content = c,
                  article_coverImage = (case coverImage of None \<Rightarrow> [] | Some x \<Rightarrow> x),
                  article_isCommunity = True, article_createdAt = now e\<rparr>,
                arts @ [\<lparr>article_id = new_id e, article_title = t, article_tag = tag,
                  article_author = author, article_readTime = readTime,
                  article_excerpt = excerpt, article_content = c,
                  article_coverImage = (case coverImage of None \<Rightarrow> [] | Some x \<Rightarrow> x),
                  article_isCommunity = True, article_createdAt = now e\<rparr>])"
  using assms
  by (simp add: Article_create_def missing_paths_def truthy_def or_else_def Let_def)

lemma User_create_ok:
  assumes "em \<noteq> []" "h \<noteq> []"
  shows "User_create e name (Some em) (Some h) us =
           Inr (\<lparr>user_id = new_id e, user_name = name, user_email = em, user_passwordHash = h\<rparr>,
                us @ [\<lparr>user_id = new_id e, user_name = name, user_email = em,
                         user_passwordHash = h\<rparr>])"
  using assms by (simp add: User_create_def missing_paths_def truthy_def or_else_def Let_def)

lemma sorted_wrt_adjacent:
  "sorted_wrt P ts \<Longrightarrow> list_all (\<lambda>(a, b). P a b) (zip ts (tl ts))"
proof (induction ts)
  case Nil
  then show ?case by simp
next
  case (Cons t ts)
  then show ?case by (cases ts) auto
qed

lemma sort_key_neg_desc:
  fixes f :: "'a \<Rightarrow> int"
  shows "sorted_wrt (\<lambda>a b. f a \<ge> f b) (sort_key (\<lambda>x. - f x) xs)"
proof -
  have "sorted (map (\<lambda>x. - f x) (sort_key (\<lambda>x. - f x) xs))"
    by (rule sorted_sort_key)
  then show ?thesis
    by (simp add: sorted_map)
qed

lemma newest_first_sort_key:
  fixes f :: "'a \<Rightarrow> int"
  shows "newest_first (map f (sort_key (\<lambda>x. - f x) xs))"
proof -
  have "sorted_wrt (\<lambda>a b. a \<ge> b) (map f (sort_key (\<lambda>x. - f x) xs))"
    using sort_key_neg_desc [of f xs] by (simp add: sorted_wrt_map)
  then show ?thesis
    unfolding newest_first_def by (rule sorted_wrt_adjacent)
qed

lemma cast_oid_absent: "castObjectId oid_absent = Inr oid_absent"
  by (simp add: castObjectId_def oid_absent_def isHexDigit_def toLowerCase_def toLowerChar_def
      upperCaseUnits_def lowerCaseUnits_def)

lemma cast_abc: "castObjectId ''abc'' = Inl (CastError ''abc'')"
  by (simp add: castObjectId_def)

lemma oid_absent_not_stored:
  "\<forall>b\<in>set (books db_example). castObjectId oid_absent \<noteq> Inr (book_id b)"
  unfolding cast_oid_absent
  by (simp add: db_example_def book_a_def book_b_def oid_absent_def oid_a_def oid_b_def)

lemma cast_oid_b: "castObjectId oid_b = Inr oid_b"
  by (simp add: castObjectId_def oid_b_def isHexDigit_def toLowerCase_def toLowerChar_def
      upperCaseUnits_def lowerCaseUnits_def)

lemma take_content_long: "take 120 content_long @ ''...'' = replicate 120 (CHR ''x'') @ ''...''"
  by (simp add: content_long_def)

lemma articles_db_example: "articles db_example @ [doc] = [article_a, article_b, doc]"
  by (simp add: db_example_def)

lemma length_content_long: "length content_long = 130"
  by (simp add: content_long_def)

section \<open>Sign-up and sign-in\<close>

text \<open>
  C1. A sign-up with a non-empty email and a non-empty password, where no stored user has
  that email, appends one user whose passwordHash is \<open>bcrypt.hash(password, 10)\<close> under
  the salt drawn for the request, sets the session to the id, email and name of that user
  and redirects to \<open>/home\<close>; a sign-in that follows with the same email and password
  sets the same session and redirects to \<open>/home\<close>. bcrypt is a package outside the
  program: its contract at this call (the hash is a non-empty string, and comparing the
  password with its own hash succeeds) is a premise.
\<close>

theorem signup_then_signin:
  assumes email: "req_body req ''email'' = Some em" "em \<noteq> []"
    and password: "req_body req ''password'' = Some pw" "pw \<noteq> []"
    and unused: "\<forall>u\<in>set (users d). user_email u \<noteq> em"
    and bcrypt: "bcrypt_hash B pw 10 (salt e) \<noteq> []"
      "bcrypt_compare B pw (bcrypt_hash B pw 10 (salt e))"
    and again: "req_body req' ''email'' = Some em" "req_body req' ''password'' = Some pw"
  shows "let u = \<lparr>user_id = new_id e, user_name = req_body req ''name'', user_email = em,
                   user_passwordHash = bcrypt_hash B pw 10 (salt e)\<rparr>;
             s = \<lparr>su_id = new_id e, su_email = em, su_name = req_body req ''name''\<rparr>;
             d' = d\<lparr>users := users d @ [u]\<rparr>
         in post_signup B e req d = (Redirect ''/home'', d', Some s) \<and>
            post_signin B req' d' = (Redirect ''/home'', d', Some s)"
proof -
  define u where "u = \<lparr>user_id = new_id e, user_name = req_body req ''name'', user_email = em,
                   user_passwordHash = bcrypt_hash B pw 10 (salt e)\<rparr>"
  define s where "s = \<lparr>su_id = new_id e, su_email = em, su_name = req_body req ''name''\<rparr>"
  have none: "User_findOne (Some em) (users d) = None"
    using unused by (simp add: User_findOne_def find_fresh)
  have up: "post_signup B e req d = (Redirect ''/home'', d\<lparr>users := users d @ [u]\<rparr>, Some s)"
    using email password bcrypt(1) none
    by (simp add: post_signup_def Let_def truthy_def hash_password_def User_create_ok u_def s_def)
  have found: "User_findOne (Some em) (users d @ [u]) = Some u"
    using unused by (simp add: User_findOne_def find_append_fresh u_def)
  have "post_signin B req' (d\<lparr>users := users d @ [u]\<rparr>) =
          (Redirect ''/home'', d\<lparr>users := users d @ [u]\<rparr>, Some s)"
    using again found bcrypt(2)
    by (simp add: post_signin_def Let_def compare_password_def u_def s_def)
  with up show ?thesis
    by (simp add: Let_def u_def s_def)
qed

text \<open>
  The theorem at a concrete sign-up: Bob signs up in a store that holds Ann, with the
  stand-in for bcrypt, and signs in afterwards.
\<close>

theorem signup_then_signin_witness:
  "req_body signup_bob ''email'' = Some ''bob@example.org'' \<and>
   req_body signup_bob ''password'' = Some ''hunter2'' \<and>
   list_all (\<lambda>u. user_email u \<noteq> ''bob@example.org'') (users db_example) \<and>
   bcrypt_compare bcrypt_toy ''hunter2'' (bcrypt_hash bcrypt_toy ''hunter2'' 10 (salt env_example)) \<and>
   post_signup bcrypt_toy env_example signup_bob db_example =
     (Redirect ''/home'', db_example\<lparr>users := [user_ann, user_bob]\<rparr>, Some session_bob) \<and>
   post_signin bcrypt_toy signin_bob (db_example\<lparr>users := [user_ann, user_bob]\<rparr>) =
     (Redirect ''/home'', db_example\<lparr>users := [user_ann, user_bob]\<rparr>, Some session_bob)"
proof -
  have email: "req_body signup_bob ''email'' = Some ''bob@example.org''"
    and password: "req_body signup_bob ''password'' = Some ''hunter2''"
    and name: "req_body signup_bob ''name'' = Some ''Bob''"
    by (simp_all add: signup_bob_def request_of_def)
  have unused: "\<forall>u\<in>set (users db_example). user_email u \<noteq> ''bob@example.org''"
    by (simp add: db_example_def user_ann_def)
  have h: "bcrypt_hash bcrypt_toy ''hunter2'' 10 (salt env_example) = ''$2a$N9qo8uLOickgx2ZMRZoMyehunter2''"
    by (simp add: bcrypt_toy_def env_example_def)
  have nonempty: "bcrypt_hash bcrypt_toy ''hunter2'' 10 (salt env_example) \<noteq> []"
    by (simp add: h)
  have compare: "bcrypt_compare bcrypt_toy ''hunter2''
                   (bcrypt_hash bcrypt_toy ''hunter2'' 10 (salt env_example))"
    unfolding h by (simp add: bcrypt_toy_def)
  have again: "req_body signin_bob ''email'' = Some ''bob@example.org''"
    "req_body signin_bob ''password'' = Some ''hunter2''"
    by (simp_all add: signin_bob_def request_of_def)
  have "''bob@example.org'' \<noteq> []" and "''hunter2'' \<noteq> []" by simp_all
  note run = signup_then_signin [OF email this(1) password this(2) unused nonempty compare again]
  from run [unfolded Let_def h name]
  have "post_signup bcrypt_toy env_example signup_bob db_example =
     (Redirect ''/home'', db_example\<lparr>users := [user_ann, user_bob]\<rparr>, Some session_bob) \<and>
   post_signin bcrypt_toy signin_bob (db_example\<lparr>users := [user_ann, user_bob]\<rparr>) =
     (Redirect ''/home'', db_example\<lparr>users := [user_ann, user_bob]\<rparr>, Some session_bob)"
    by (simp add: user_bob_def session_bob_def db_example_def env_example_def)
  with email password unused compare show ?thesis by (simp add: list_all_iff)
qed

text \<open>
  C2. A sign-up whose email is the email of a stored user leaves the store as it is (no
  user is created), leaves the session as it is and redirects to \<open>/signin\<close>.
\<close>

theorem signup_existing_email:
  assumes "req_body req ''email'' = Some em" and "\<exists>u\<in>set (users d). user_email u = em"
  shows "post_signup B e req d = (Redirect ''/signin'', d, req_session req)"
proof -
  from assms(2) have "User_findOne (Some em) (users d) \<noteq> None"
    by (auto simp: User_findOne_def find_None_iff)
  then show ?thesis
    using assms(1) by (auto simp: post_signup_def Let_def)
qed

text \<open>The theorem at a concrete sign-up: Ann's email is used a second time.\<close>

theorem signup_existing_email_witness:
  "req_body signup_ann_again ''email'' = Some ''ann@example.org'' \<and>
   (\<exists>u\<in>set (users db_example). user_email u = ''ann@example.org'') \<and>
   post_signup bcrypt_toy env_example signup_ann_again db_example =
     (Redirect ''/signin'', db_example, None)"
proof -
  have email: "req_body signup_ann_again ''email'' = Some ''ann@example.org''"
    by (simp add: signup_ann_again_def request_of_def)
  have used: "\<exists>u\<in>set (users db_example). user_email u = ''ann@example.org''"
    by (simp add: db_example_def user_ann_def)
  have "req_session signup_ann_again = None"
    by (simp add: signup_ann_again_def request_of_def)
  with signup_existing_email [OF email used, of bcrypt_toy env_example] email used
  show ?thesis by simp
qed

section \<open>Administration of books\<close>

text \<open>
  C3, as the code has it. An update request for which no stored book has the given id
  changes nothing and signals no NotFound: the result of \<open>findByIdAndUpdate\<close> is not
  looked at, so an id that is a well-formed ObjectId gets the redirect to
  \<open>/admin/books\<close> that a successful update gets, and an id that is no ObjectId gets the
  500 of the catch branch.
\<close>

theorem edit_absent_id:
  assumes "\<forall>b\<in>set (books d). castObjectId (req_params_id req) \<noteq> Inr (book_id b)"
  shows "post_admin_books_edit req d =
          ((case castObjectId (req_params_id req) of
              Inl err \<Rightarrow> Send 500 ''Error updating book''
            | Inr oid \<Rightarrow> Redirect ''/admin/books''), d)"
proof (cases "castObjectId (req_params_id req)")
  case (Inl err)
  then show ?thesis
    by (simp add: post_admin_books_edit_def Book_findByIdAndUpdate_def)
next
  case (Inr oid)
  with assms have "\<forall>b\<in>set (books d). \<not> book_id b = oid" by auto
  then have "update_first (\<lambda>b. book_id b = oid) f (books d) = books d" for f
    by (rule update_first_absent)
  with Inr show ?thesis
    by (simp add: post_admin_books_edit_def Book_findByIdAndUpdate_def)
qed

text \<open>The theorem at a concrete request: a well-formed id that no stored book has.\<close>

theorem edit_absent_id_witness:
  "list_all (\<lambda>b. castObjectId (req_params_id (request_of edit_fields oid_absent)) \<noteq>
                   Inr (book_id b)) (books db_example) \<and>
   post_admin_books_edit (request_of edit_fields oid_absent) db_example =
     (Redirect ''/admin/books'', db_example)"
proof -
  have p: "req_params_id (request_of edit_fields oid_absent) = oid_absent"
    by (simp add: request_of_def)
  have absent: "\<forall>b\<in>set (books db_example).
      castObjectId (req_params_id (request_of edit_fields oid_absent)) \<noteq> Inr (book_id b)"
    unfolding p by (rule oid_absent_not_stored)
  from edit_absent_id [OF absent] absent show ?thesis
    by (simp add: p cast_oid_absent list_all_iff)
qed

text \<open>
  The update of an absent id does not fail: the model operation returns \<open>null\<close> without
  an error, and the response is the redirect, not an error response.
\<close>

theorem edit_absent_id_not_an_error:
  "oid_absent \<notin> book_id ` set (books db_example) \<and>
   Book_findByIdAndUpdate oid_absent (Some ''New title'') (Some ''New text'') (Some [])
     (books db_example) = Inr (None, books db_example) \<and>
   post_admin_books_edit (request_of edit_fields oid_absent) db_example =
     (Redirect ''/admin/books'', db_example) \<and>
   \<not> is_error_response (fst (post_admin_books_edit (request_of edit_fields oid_absent) db_example))"
proof -
  have a: "oid_absent \<notin> book_id ` set (books db_example)"
    by (simp add: db_example_def book_a_def book_b_def oid_absent_def oid_a_def oid_b_def)
  have b: "Book_findByIdAndUpdate oid_absent (Some ''New title'') (Some ''New text'') (Some [])
     (books db_example) = Inr (None, books db_example)"
    unfolding Book_findByIdAndUpdate_def cast_oid_absent
    by (simp add: db_example_def book_a_def book_b_def oid_absent_def oid_a_def oid_b_def)
  have c: "post_admin_books_edit (request_of edit_fields oid_absent) db_example =
     (Redirect ''/admin/books'', db_example)"
    using b by (simp add: post_admin_books_edit_def request_of_def edit_fields_def)
  show ?thesis
    using a b by (simp add: c is_error_response_def)
qed

text \<open>
  C8, as the code has it. A delete request for which no stored book has the given id
  leaves the collection as it is. When the id is a well-formed ObjectId, the response is
  the redirect to \<open>/admin/books\<close>; when it is not, \<open>findByIdAndDelete\<close> throws on the
  cast and the response is the 500 of the catch branch.
\<close>

theorem delete_absent_id:
  assumes "\<forall>b\<in>set (books d). castObjectId (req_params_id req) \<noteq> Inr (book_id b)"
  shows "post_admin_books_delete req d =
          ((case castObjectId (req_params_id req) of
              Inl err \<Rightarrow> Send 500 ''Error deleting book''
            | Inr oid \<Rightarrow> Redirect ''/admin/books''), d)"
proof (cases "castObjectId (req_params_id req)")
  case (Inl err)
  then show ?thesis
    by (simp add: post_admin_books_delete_def Book_findByIdAndDelete_def)
next
  case (Inr oid)
  with assms have "\<forall>b\<in>set (books d). \<not> book_id b = oid" by auto
  then have "remove_first (\<lambda>b. book_id b = oid) (books d) = books d"
    by (rule remove_first_absent)
  with Inr show ?thesis
    by (simp add: post_admin_books_delete_def Book_findByIdAndDelete_def)
qed

text \<open>The theorem at a concrete request: a well-formed id that no stored book has.\<close>

theorem delete_absent_id_witness:
  "list_all (\<lambda>b. castObjectId (req_params_id (request_of [] oid_absent)) \<noteq> Inr (book_id b))
     (books db_example) \<and>
   post_admin_books_delete (request_of [] oid_absent) db_example =
     (Redirect ''/admin/books'', db_example)"
proof -
  have p: "req_params_id (request_of [] oid_absent) = oid_absent"
    by (simp add: request_of_def)
  have absent: "\<forall>b\<in>set (books db_example).
      castObjectId (req_params_id (request_of [] oid_absent)) \<noteq> Inr (book_id b)"
    unfolding p by (rule oid_absent_not_stored)
  from delete_absent_id [OF absent] absent show ?thesis
    by (simp add: p cast_oid_absent list_all_iff)
qed

text \<open>
  The path parameter \<open>abc\<close> is the id of no stored book, and the delete request for it
  is answered with the 500, not with the redirect.
\<close>

theorem delete_malformed_id_is_500:
  "''abc'' \<notin> book_id ` set (books db_example) \<and>
   post_admin_books_delete (request_of [] ''abc'') db_example =
     (Send 500 ''Error deleting book'', db_example) \<and>
   fst (post_admin_books_delete (request_of [] ''abc'') db_example) \<noteq> Redirect ''/admin/books''"
proof -
  have a: "''abc'' \<notin> book_id ` set (books db_example)"
    by (simp add: db_example_def book_a_def book_b_def oid_a_def oid_b_def)
  have b: "post_admin_books_delete (request_of [] ''abc'') db_example =
     (Send 500 ''Error deleting book'', db_example)"
    by (simp add: post_admin_books_delete_def Book_findByIdAndDelete_def request_of_def cast_abc)
  show ?thesis using a by (simp add: b)
qed

text \<open>
  C9, as the code has it. No handler of the four admin book routes reads the session, and
  no authentication check gates them. Two requests to one of the three \<open>POST\<close> routes that
  differ only in the session (any session or none) get the same response and leave the
  same store. Two such requests to \<open>GET /admin/books\<close> change nothing and render the
  same view with the same title, page and books; the responses differ in one input of the
  view only, the local \<open>currentUser\<close> that the middleware takes from the session, and are
  equal exactly when the two sessions are.
\<close>

theorem admin_routes_session:
  "post_admin_books e (req\<lparr>req_session := sa\<rparr>) d =
     post_admin_books e (req\<lparr>req_session := sb\<rparr>) d \<and>
   post_admin_books_edit (req\<lparr>req_session := sa\<rparr>) d =
     post_admin_books_edit (req\<lparr>req_session := sb\<rparr>) d \<and>
   post_admin_books_delete (req\<lparr>req_session := sa\<rparr>) d =
     post_admin_books_delete (req\<lparr>req_session := sb\<rparr>) d \<and>
   get_admin_books (req\<lparr>req_session := sa\<rparr>) d =
     Render ''partials/layout'' ''Manage Books'' ''admin-books''
       (BooksData (Book_find_sorted (books d))) sa \<and>
   get_admin_books (req\<lparr>req_session := sb\<rparr>) d =
     Render ''partials/layout'' ''Manage Books'' ''admin-books''
       (BooksData (Book_find_sorted (books d))) sb \<and>
   ((get_admin_books (req\<lparr>req_session := sa\<rparr>) d =
     get_admin_books (req\<lparr>req_session := sb\<rparr>) d) = (sa = sb))"
  by (simp add: get_admin_books_def currentUser_def post_admin_books_def
      post_admin_books_edit_def post_admin_books_delete_def)

text \<open>
  The theorem at a concrete pair of requests: the delete of a stored book, and the
  listing, without a session and with Ann's session.
\<close>

theorem admin_routes_session_witness:
  "post_admin_books_delete (request_of [] oid_b) db_example =
     (Redirect ''/admin/books'', db_example\<lparr>books := [book_a]\<rparr>) \<and>
   post_admin_books_delete ((request_of [] oid_b)\<lparr>req_session := Some session_ann\<rparr>) db_example =
     (Redirect ''/admin/books'', db_example\<lparr>books := [book_a]\<rparr>) \<and>
   get_admin_books ((request_of [] oid_b)\<lparr>req_session := Some session_ann\<rparr>) db_example =
     Render ''partials/layout'' ''Manage Books'' ''admin-books'' (BooksData [book_b, book_a])
       (Some session_ann)"
proof -
  have anon: "(request_of [] oid_b)\<lparr>req_session := None\<rparr> = request_of [] oid_b"
    by (simp add: request_of_def)
  have run: "post_admin_books_delete (request_of [] oid_b) db_example =
     (Redirect ''/admin/books'', db_example\<lparr>books := [book_a]\<rparr>)"
  proof -
    have p: "req_params_id (request_of [] oid_b) = oid_b"
      by (simp add: request_of_def)
    have del: "Book_findByIdAndDelete oid_b (books db_example) = Inr (Some book_b, [book_a])"
      unfolding Book_findByIdAndDelete_def cast_oid_b
      by (simp add: db_example_def book_a_def book_b_def oid_a_def oid_b_def)
    show ?thesis
      by (simp add: post_admin_books_delete_def p del)
  qed
  have b: "Book_find_sorted (books db_example) = [book_b, book_a]"
    by (simp add: Book_find_sorted_def db_example_def book_a_def book_b_def)
  note both = admin_routes_session [where req = "request_of [] oid_b" and sa = None
      and sb = "Some session_ann" and d = db_example and e = env_example, unfolded anon b]
  from both have same: "post_admin_books_delete (request_of [] oid_b) db_example =
     post_admin_books_delete ((request_of [] oid_b)\<lparr>req_session := Some session_ann\<rparr>) db_example"
    by (elim conjE)
  from both have listing:
    "get_admin_books ((request_of [] oid_b)\<lparr>req_session := Some session_ann\<rparr>) db_example =
     Render ''partials/layout'' ''Manage Books'' ''admin-books'' (BooksData [book_b, book_a])
       (Some session_ann)"
    by (elim conjE)
  from run same listing show ?thesis by simp
qed

text \<open>
  The listing of the admin page without a session and with Ann's session: the two
  responses are not the same, since the view receives Ann as \<open>currentUser\<close> in the second.
\<close>

theorem admin_listing_depends_on_session:
  "get_admin_books (request_of [] []) db_example =
     Render ''partials/layout'' ''Manage Books'' ''admin-books'' (BooksData [book_b, book_a]) None \<and>
   get_admin_books ((request_of [] [])\<lparr>req_session := Some session_ann\<rparr>) db_example =
     Render ''partials/layout'' ''Manage Books'' ''admin-books'' (BooksData [book_b, book_a])
       (Some session_ann) \<and>
   get_admin_books (request_of [] []) db_example \<noteq>
     get_admin_books ((request_of [] [])\<lparr>req_session := Some session_ann\<rparr>) db_example"
proof -
  have b: "Book_find_sorted (books db_example) = [book_b, book_a]"
    by (simp add: Book_find_sorted_def db_example_def book_a_def book_b_def)
  show ?thesis
    by (simp add: get_admin_books_def currentUser_def request_of_def b)
qed

section \<open>Listings\<close>

text \<open>
  C5. The listings of books (\<open>GET /books\<close>, \<open>GET /admin/books\<close>) and of articles
  (\<open>GET /articles\<close>, \<open>GET /api/articles\<close>) return the stored records, each exactly
  once, ordered so that of any two neighbours the earlier one's \<open>createdAt\<close> is greater
  than or equal to the later one's.
\<close>

theorem listings_newest_first:
  "get_books req d =
     Render ''partials/layout'' ''Books'' ''books'' (BooksData (Book_find_sorted (books d)))
       (currentUser req)
   \<and> get_admin_books req d =
       Render ''partials/layout'' ''Manage Books'' ''admin-books''
         (BooksData (Book_find_sorted (books d))) (currentUser req)
   \<and> get_articles req d =
       Render ''partials/layout'' ''Articles'' ''articles''
         (ArticlesData (Article_find_sorted (articles d))) (currentUser req)
   \<and> get_api_articles req d = Json (Article_find_sorted (articles d))
   \<and> mset (Book_find_sorted (books d)) = mset (books d)
   \<and> newest_first (map book_createdAt (Book_find_sorted (books d)))
   \<and> mset (Article_find_sorted (articles d)) = mset (articles d)
   \<and> newest_first (map article_createdAt (Article_find_sorted (articles d)))"
  by (simp add: get_books_def get_admin_books_def get_articles_def get_api_articles_def
      Book_find_sorted_def Article_find_sorted_def newest_first_sort_key)

text \<open>The theorem at the example store: the newer book and the newer article come first.\<close>

theorem listings_newest_first_witness:
  "get_books (request_of [] []) db_example =
     Render ''partials/layout'' ''Books'' ''books'' (BooksData [book_b, book_a]) None \<and>
   get_api_articles (request_of [] []) db_example = Json [article_b, article_a] \<and>
   newest_first (map book_createdAt [book_b, book_a]) \<and>
   newest_first (map article_createdAt [article_b, article_a])"
proof -
  have b: "Book_find_sorted (books db_example) = [book_b, book_a]"
    by (simp add: Book_find_sorted_def db_example_def book_a_def book_b_def)
  have a: "Article_find_sorted (articles db_example) = [article_b, article_a]"
    by (simp add: Article_find_sorted_def db_example_def article_a_def article_b_def)
  have u: "currentUser (request_of [] []) = None"
    by (simp add: currentUser_def request_of_def)
  from listings_newest_first [of "request_of [] []" db_example]
  show ?thesis unfolding a b u by simp
qed

section \<open>Article submission and book creation\<close>

text \<open>
  C4. A \<open>POST /write\<close> request in which the title or the content is missing or empty
  leaves the store as it is (no article is created) and is answered with status 400.
\<close>

theorem write_missing_title_or_content:
  assumes "req_body req ''title'' = None \<or> req_body req ''title'' = Some [] \<or>
           req_body req ''content'' = None \<or> req_body req ''content'' = Some []"
  shows "post_write e req d = (Send 400 ''Title and content are required.'', d)"
  using assms by (auto simp: post_write_def Let_def truthy_iff)

text \<open>The theorem at a concrete submission that has content and no title.\<close>

theorem write_missing_title_or_content_witness:
  "req_body (request_of [(''content'', ''Body'')] []) ''title'' = None \<and>
   post_write env_example (request_of [(''content'', ''Body'')] []) db_example =
     (Send 400 ''Title and content are required.'', db_example)"
proof -
  have missing: "req_body (request_of [(''content'', ''Body'')] []) ''title'' = None"
    by (simp add: request_of_def)
  then have "req_body (request_of [(''content'', ''Body'')] []) ''title'' = None \<or>
      req_body (request_of [(''content'', ''Body'')] []) ''title'' = Some [] \<or>
      req_body (request_of [(''content'', ''Body'')] []) ''content'' = None \<or>
      req_body (request_of [(''content'', ''Body'')] []) ''content'' = Some []"
    by (rule disjI1)
  from write_missing_title_or_content [OF this, of env_example db_example] missing
  show ?thesis by (rule_tac conjI)
qed

text \<open>
  C7. A \<open>POST /write\<close> request with a non-empty title, a non-empty content and no
  excerpt (the field is missing, or it is posted empty) appends one article, whose excerpt is the first 120 characters of the content
  (all of it when it is shorter) followed by the three characters \<open>...\<close>, and redirects
  to \<open>/articles\<close>.
\<close>

theorem write_default_excerpt:
  assumes "req_body req ''title'' = Some t" "t \<noteq> []"
    and "req_body req ''content'' = Some c" "c \<noteq> []"
    and "req_body req ''excerpt'' = None \<or> req_body req ''excerpt'' = Some []"
  shows "\<exists>doc. post_write e req d = (Redirect ''/articles'', d\<lparr>articles := articles d @ [doc]\<rparr>)
            \<and> article_excerpt doc = take 120 c @ ''...''
            \<and> article_title doc = t \<and> article_content doc = c"
proof -
  have ex: "or_else (req_body req ''excerpt'')
              (slice0 120 (or_else (req_body req ''content'') []) @ ''...'')
            = take 120 c @ ''...''"
    using assms(3,4,5) by (auto simp: or_else_def slice0_def)
  have "\<exists>doc. post_write e req d = (Redirect ''/articles'', d\<lparr>articles := articles d @ [doc]\<rparr>)
            \<and> article_excerpt doc = take 120 c @ ''...''
            \<and> article_title doc = t \<and> article_content doc = c"
    unfolding post_write_def Let_def ex
    using assms(2,4)
    apply (simp add: assms(1,3) truthy_def Article_create_ok)
    apply (rule exI, rule conjI, rule refl)
    apply simp
    done
  then show ?thesis .
qed

text \<open>
  The theorem at a concrete submission whose content has 130 characters and whose excerpt
  field is posted empty.
\<close>

theorem write_default_excerpt_witness:
  "req_body write_long ''title'' = Some ''Hello'' \<and>
   req_body write_long ''content'' = Some content_long \<and>
   req_body write_long ''excerpt'' = Some [] \<and>
   length content_long = 130 \<and>
   (\<exists>doc. post_write env_example write_long db_example =
            (Redirect ''/articles'', db_example\<lparr>articles := [article_a, article_b, doc]\<rparr>)
          \<and> article_excerpt doc = replicate 120 (CHR ''x'') @ ''...'')"
proof -
  have t: "req_body write_long ''title'' = Some ''Hello''"
    by (simp add: write_long_def request_of_def)
  have c: "req_body write_long ''content'' = Some content_long"
    by (simp add: write_long_def request_of_def)
  have x: "req_body write_long ''excerpt'' = Some []"
    by (simp add: write_long_def request_of_def)
  then have x': "req_body write_long ''excerpt'' = None \<or> req_body write_long ''excerpt'' = Some []"
    by (rule disjI2)
  have ne: "content_long \<noteq> []"
    using length_content_long by auto
  have "''Hello'' \<noteq> []" by simp
  from write_default_excerpt [OF t this c ne x', of env_example db_example]
  have "\<exists>doc. post_write env_example write_long db_example =
            (Redirect ''/articles'', db_example\<lparr>articles := [article_a, article_b, doc]\<rparr>)
          \<and> article_excerpt doc = replicate 120 (CHR ''x'') @ ''...''"
    unfolding take_content_long articles_db_example by (elim exE conjE, intro exI conjI)
  with t c x length_content_long show ?thesis by (intro conjI)
qed

text \<open>
  C10. A \<open>POST /admin/books\<close> request in which the title or the description is missing
  or empty creates no book and is answered with the 500 \<open>Error creating book\<close>, never
  with a 400: the handler checks nothing itself, the required paths of the schema reject
  the document in \<open>Book.create\<close>, and the catch branch answers.
\<close>

theorem create_book_missing_field_is_500:
  assumes "req_body req ''title'' = None \<or> req_body req ''title'' = Some [] \<or>
           req_body req ''description'' = None \<or> req_body req ''description'' = Some []"
  shows "post_admin_books e req d = (Send 500 ''Error creating book'', d) \<and>
         fst (post_admin_books e req d) \<noteq> Send 400 text"
  using assms
  by (auto simp: post_admin_books_def Book_create_def missing_paths_def Let_def truthy_iff)

text \<open>The theorem at a concrete request that has a title and no description.\<close>

theorem create_book_missing_field_is_500_witness:
  "req_body (request_of [(''title'', ''Only a title'')] []) ''description'' = None \<and>
   post_admin_books env_example (request_of [(''title'', ''Only a title'')] []) db_example =
     (Send 500 ''Error creating book'', db_example)"
proof -
  have missing: "req_body (request_of [(''title'', ''Only a title'')] []) ''description'' = None"
    by (simp add: request_of_def)
  then have "req_body (request_of [(''title'', ''Only a title'')] []) ''title'' = None \<or>
      req_body (request_of [(''title'', ''Only a title'')] []) ''title'' = Some [] \<or>
      req_body (request_of [(''title'', ''Only a title'')] []) ''description'' = None \<or>
      req_body (request_of [(''title'', ''Only a title'')] []) ''description'' = Some []"
    by simp
  from create_book_missing_field_is_500 [OF this, of env_example db_example] missing
  show ?thesis by simp
qed

section \<open>The client-side filter\<close>




end
